theory Spec2Isabelle
  imports Complex_Main "HOL-Library.AList" "HOL-Library.Multiset"
begin

section \<open>Data model: floats, cells, rows, frames\<close>

text \<open>
  A Python float is a finite number, one of the two infinities, or \<open>nan\<close>. Finite floats
  are modelled as exact reals (rounding is left out); integers and booleans are the
  numbers they are.
\<close>

datatype pyfloat = Finite real | PosInf | NegInf | NaN

text \<open>\<open>x > k\<close> for a float \<open>x\<close> and a finite number \<open>k\<close>: every comparison with \<open>nan\<close> is false.\<close>

fun fgt :: "pyfloat \<Rightarrow> real \<Rightarrow> bool" where
  "fgt (Finite x) k = (x > k)"
| "fgt PosInf k = True"
| "fgt NegInf k = False"
| "fgt NaN k = False"

text \<open>Addition, negation and subtraction of floats: \<open>nan\<close> absorbs, \<open>inf - inf\<close> is \<open>nan\<close>.\<close>

fun fadd :: "pyfloat \<Rightarrow> pyfloat \<Rightarrow> pyfloat" where
  "fadd (Finite a) (Finite b) = Finite (a + b)"
| "fadd NaN y = NaN"
| "fadd x NaN = NaN"
| "fadd PosInf NegInf = NaN"
| "fadd NegInf PosInf = NaN"
| "fadd PosInf y = PosInf"
| "fadd NegInf y = NegInf"
| "fadd x PosInf = PosInf"
| "fadd x NegInf = NegInf"

fun fneg :: "pyfloat \<Rightarrow> pyfloat" where
  "fneg (Finite a) = Finite (- a)"
| "fneg PosInf = NegInf"
| "fneg NegInf = PosInf"
| "fneg NaN = NaN"

definition fsub :: "pyfloat \<Rightarrow> pyfloat \<Rightarrow> pyfloat" where
  "fsub x y = fadd x (fneg y)"

text \<open>Division of a float by a positive count.\<close>

fun fdiv_count :: "pyfloat \<Rightarrow> nat \<Rightarrow> pyfloat" where
  "fdiv_count (Finite a) n = Finite (a / real n)"
| "fdiv_count x n = x"

text \<open>
  A cell of a data frame is one of the scalar values that occur in the program: Python's
  \<open>None\<close>, a float, a string, pandas' \<open>NaT\<close>, or a timestamp. A timestamp is an instant
  in nanoseconds since 1970-01-01 00:00; \<open>Timestamp\<close> is a timestamp without a time zone
  (as \<open>datetime.now()\<close> is), \<open>TimestampTz\<close> one with a time zone. \<open>None\<close>, \<open>nan\<close> and
  \<open>NaT\<close> are the three forms of a missing value.
\<close>

datatype cell = PyNone | Num pyfloat | Str string | NaT | Timestamp int | TimestampTz int

type_synonym row = "(string \<times> cell) list"

record frame =
  columns :: "string list"
  rows :: "row list"

datatype error =
  KeyError | TypeError | ValueError | OverflowError | UnboundLocalError | SourceError

text \<open>\<open>Series.get(key)\<close> and \<open>dict.get(key)\<close>: the value under the key, \<open>None\<close> without it.\<close>

definition row_get :: "row \<Rightarrow> string \<Rightarrow> cell" where
  "row_get r k = (case map_of r k of None \<Rightarrow> PyNone | Some c \<Rightarrow> c)"

text \<open>\<open>df.empty\<close>: an axis of the frame has length 0.\<close>

definition df_empty :: "frame \<Rightarrow> bool" where
  "df_empty df = (rows df = [] \<or> columns df = [])"

text \<open>
  \<open>df[col] = values\<close>: every row receives its value under \<open>col\<close>; an existing column keeps
  its position, a new one is appended.
\<close>

definition assign :: "string \<Rightarrow> (row \<Rightarrow> cell) \<Rightarrow> frame \<Rightarrow> frame" where
  "assign col f df =
     \<lparr>columns = (if col \<in> set (columns df) then columns df else columns df @ [col]),
      rows = map (\<lambda>r. AList.update col (f r) r) (rows df)\<rparr>"

text \<open>
  \<open>pd.to_numeric(_, errors='coerce')\<close>, cell by cell. The library's parser of numerals is
  a parameter \<open>pf\<close>; it may deliver an infinity (for \<open>inf\<close>). A string of length 0 is
  coerced to \<open>nan\<close> before any parsing, and so is every value that is neither a number
  nor a string.
\<close>

fun to_numeric :: "(string \<Rightarrow> pyfloat option) \<Rightarrow> cell \<Rightarrow> cell" where
  "to_numeric pf (Num x) = Num x"
| "to_numeric pf (Str s) =
     (if s = [] then Num NaN else (case pf s of None \<Rightarrow> Num NaN | Some x \<Rightarrow> Num x))"
| "to_numeric pf c = Num NaN"

text \<open>
  \<open>pd.to_datetime(_, errors='coerce')\<close>, cell by cell. The library's parser of dates is
  the parameter \<open>pt\<close>; it delivers the instant. Whether the converted column has a time
  zone is decided by the library for the column as a whole and is the parameter \<open>tz\<close>.
  A cell that is a timestamp already is kept; a finite number is read as nanoseconds
  since the epoch; everything else becomes \<open>NaT\<close>.
\<close>

definition stamp :: "bool \<Rightarrow> int \<Rightarrow> cell" where
  "stamp tz t = (if tz then TimestampTz t else Timestamp t)"

fun to_datetime :: "(string \<Rightarrow> int option) \<Rightarrow> bool \<Rightarrow> cell \<Rightarrow> cell" where
  "to_datetime pt tz (Timestamp t) = Timestamp t"
| "to_datetime pt tz (TimestampTz t) = TimestampTz t"
| "to_datetime pt tz (Str s) = (case pt s of None \<Rightarrow> NaT | Some t \<Rightarrow> stamp tz t)"
| "to_datetime pt tz (Num (Finite x)) = stamp tz \<lfloor>x\<rfloor>"
| "to_datetime pt tz c = NaT"

text \<open>
  \<open>df.sort_values(by='time').reset_index(drop=True)\<close> on a frame whose time column holds
  timestamps and \<open>NaT\<close>: the rows with a timestamp in ascending order of their instants,
  then the rows with \<open>NaT\<close> in their original order (\<open>na_position='last'\<close>). The sort
  is the library's default, quicksort, which does not promise an order among rows of
  equal time. That order is the parameter \<open>tie\<close>: among rows of equal time, the row
  with the smaller rank comes first, and the rank of a row may depend on the order of the
  rows before the sort.
\<close>

definition time_present :: "row \<Rightarrow> bool" where
  "time_present r =
     (case row_get r ''time'' of Timestamp t \<Rightarrow> True | TimestampTz t \<Rightarrow> True | _ \<Rightarrow> False)"

definition time_key :: "row \<Rightarrow> int" where
  "time_key r =
     (case row_get r ''time'' of Timestamp t \<Rightarrow> t | TimestampTz t \<Rightarrow> t | _ \<Rightarrow> 0)"

definition quicksort_time :: "(row list \<Rightarrow> row \<Rightarrow> nat) \<Rightarrow> row list \<Rightarrow> row list" where
  "quicksort_time tie rs = sort_key time_key (sort_key (tie rs) rs)"

definition sort_values_time :: "(row list \<Rightarrow> row \<Rightarrow> nat) \<Rightarrow> frame \<Rightarrow> frame" where
  "sort_values_time tie df =
     df\<lparr>rows := quicksort_time tie (filter time_present (rows df))
                 @ filter (\<lambda>r. \<not> time_present r) (rows df)\<rparr>"

section \<open>The record sources\<close>

text \<open>
  What the program reads from outside: the worksheet of the remote spreadsheet (\<open>None\<close>
  when the connection at start-up failed; otherwise what \<open>get_all_records\<close> followed by
  \<open>pd.DataFrame\<close> delivers, a frame or an exception), the files under \<open>data/\<close>
  (\<open>None\<close> when \<open>os.path.exists\<close> is false; otherwise what \<open>pd.read_csv\<close> delivers),
  and the behaviour of the library: its two parsers, its decision whether a column of
  dates has a time zone (from the cells of the column), and the order in which its sort
  leaves rows of equal time.
\<close>

record env =
  worksheet :: "(error + frame) option"
  files :: "string \<Rightarrow> (error + frame) option"
  parse_float :: "string \<Rightarrow> pyfloat option"
  parse_datetime :: "string \<Rightarrow> int option"
  tz_aware :: "cell list \<Rightarrow> bool"
  tie_order :: "row list \<Rightarrow> row \<Rightarrow> nat"

text \<open>\<open>df['time'] = pd.to_datetime(df['time'], errors='coerce')\<close>.\<close>

definition convert_time :: "(string \<Rightarrow> int option) \<Rightarrow> (cell list \<Rightarrow> bool) \<Rightarrow> frame \<Rightarrow> frame" where
  "convert_time pt tza df =
     assign ''time''
       (\<lambda>r. to_datetime pt (tza (map (\<lambda>r. row_get r ''time'') (rows df))) (row_get r ''time''))
       df"

text \<open>The body of the \<open>try\<close> block of \<open>get_data_from_sheet\<close>.\<close>

definition get_data_from_sheet_try :: "env \<Rightarrow> (error + frame) \<Rightarrow> error + frame" where
  "get_data_from_sheet_try e fetched =
     (case fetched of
        Inl err \<Rightarrow> Inl err
      | Inr df \<Rightarrow>
          (let df1 = (if ''time'' \<in> set (columns df)
                      then convert_time (parse_datetime e) (tz_aware e) df
                      else df)
           in if ''time'' \<in> set (columns df1) then Inr (sort_values_time (tie_order e) df1)
              else Inl KeyError))"

definition get_data_from_sheet :: "env \<Rightarrow> frame option" where
  "get_data_from_sheet e =
     (case worksheet e of
        None \<Rightarrow> None
      | Some fetched \<Rightarrow>
          (case get_data_from_sheet_try e fetched of
             Inl err \<Rightarrow> None
           | Inr df \<Rightarrow> Some df))"

section \<open>Normalisation\<close>

definition required_cols :: "string list" where
  "required_cols = [''time'', ''temp_c'', ''humidity_pct'', ''co2_ppm'', ''pir_state'']"

definition numeric_cols :: "string list" where
  "numeric_cols = [''temp_c'', ''humidity_pct'', ''co2_ppm'']"

text \<open>
  Step 1 of \<open>load_sensor_data\<close>: a required column the frame lacks is added, all
  \<open>None\<close>. \<open>ensure_col\<close> is the body of the loop.
\<close>

definition ensure_col :: "string \<Rightarrow> frame \<Rightarrow> frame" where
  "ensure_col col d = (if col \<notin> set (columns d) then assign col (\<lambda>r. PyNone) d else d)"

definition ensure_cols :: "frame \<Rightarrow> frame" where
  "ensure_cols df = fold ensure_col required_cols df"

text \<open>Step 2: the sensor columns are converted to numbers. \<open>numeric_col\<close> is the loop body.\<close>

definition numeric_col :: "(string \<Rightarrow> pyfloat option) \<Rightarrow> string \<Rightarrow> frame \<Rightarrow> frame" where
  "numeric_col pf col d =
     (if col \<in> set (columns d)
      then assign col (\<lambda>r. to_numeric pf (row_get r col)) d else d)"

definition coerce_numeric :: "(string \<Rightarrow> pyfloat option) \<Rightarrow> frame \<Rightarrow> frame" where
  "coerce_numeric pf df = fold (numeric_col pf) numeric_cols df"

text \<open>Step 3: the time column is converted to timestamps.\<close>

definition coerce_time :: "(string \<Rightarrow> int option) \<Rightarrow> (cell list \<Rightarrow> bool) \<Rightarrow> frame \<Rightarrow> frame" where
  "coerce_time pt tza df =
     (if ''time'' \<in> set (columns df) then convert_time pt tza df else df)"

text \<open>
  The second half of \<open>load_sensor_data\<close> (from \<open>if df is not None and not df.empty\<close> to
  the final \<open>return None\<close>): the normalisation of a fetched frame.
\<close>

definition normalize_frame :: "env \<Rightarrow> frame option \<Rightarrow> frame option" where
  "normalize_frame e dfo =
     (case dfo of
        None \<Rightarrow> None
      | Some df \<Rightarrow>
          (if \<not> df_empty df
           then Some (sort_values_time (tie_order e)
                  (coerce_time (parse_datetime e) (tz_aware e)
                     (coerce_numeric (parse_float e) (ensure_cols df))))
           else None))"

text \<open>\<open>s.replace(' ', '')\<close>.\<close>

definition remove_spaces :: "string \<Rightarrow> string" where
  "remove_spaces s = filter (\<lambda>c. c \<noteq> CHR '' '') s"

definition csv_path :: "string \<Rightarrow> string \<Rightarrow> string" where
  "csv_path loc_name clean_booth_name =
     ''data/'' @ remove_spaces loc_name @ ''_'' @ clean_booth_name @ ''.csv''"

text \<open>
  The first half of \<open>load_sensor_data\<close>: \<open>Inl\<close> is the early \<open>return None\<close> of the
  \<open>except\<close> branch, \<open>Inr df\<close> the value of the variable \<open>df\<close> after the branch.
\<close>

definition fetch :: "env \<Rightarrow> string \<Rightarrow> string \<Rightarrow> unit + frame option" where
  "fetch e loc_name booth_name =
     (let clean_booth_name = remove_spaces booth_name
      in if loc_name = ''Adelaide'' \<and> clean_booth_name = ''BoothA''
         then Inr (get_data_from_sheet e)
         else (case files e (csv_path loc_name clean_booth_name) of
                 None \<Rightarrow> Inr None
               | Some (Inl err) \<Rightarrow> Inl ()
               | Some (Inr df) \<Rightarrow> Inr (Some df)))"

text \<open>
  \<open>load_sensor_data\<close>. The result is \<open>Inr\<close> of what the function returns (\<open>None\<close> or a
  frame); \<open>Inl\<close> would be an exception that leaves the function.
\<close>

definition load_sensor_data :: "env \<Rightarrow> string \<Rightarrow> string \<Rightarrow> error + frame option" where
  "load_sensor_data e loc_name booth_name =
     (case fetch e loc_name booth_name of
        Inl u \<Rightarrow> Inr None
      | Inr dfo \<Rightarrow> Inr (normalize_frame e dfo))"

section \<open>Topology\<close>

text \<open>
  The table \<open>df_clients\<close>: one row (client name, location, booth) per assignment.
  \<open>Series.unique()\<close> keeps the first occurrence of every value, in order.
\<close>

type_synonym clients = "(string \<times> string \<times> string) list"

definition unique :: "'a list \<Rightarrow> 'a list" where
  "unique xs = rev (remdups (rev xs))"

text \<open>\<open>get_locations\<close>; \<open>if client_name:\<close> is false for \<open>None\<close> and for the empty string.\<close>

definition get_locations :: "clients \<Rightarrow> string option \<Rightarrow> string list" where
  "get_locations df_clients client_name =
     (case client_name of
        None \<Rightarrow> unique (map (\<lambda>(c, l, b). l) df_clients)
      | Some name \<Rightarrow>
          (if name \<noteq> []
           then unique (map (\<lambda>(c, l, b). l) (filter (\<lambda>(c, l, b). c = name) df_clients))
           else unique (map (\<lambda>(c, l, b). l) df_clients)))"

text \<open>\<open>df_clients[df_clients['location'] == loc]['booth'].unique().tolist()\<close>.\<close>

definition booths_in_loc :: "clients \<Rightarrow> string \<Rightarrow> string list" where
  "booths_in_loc df_clients loc_name =
     unique (map (\<lambda>(c, l, b). b) (filter (\<lambda>(c, l, b). l = loc_name) df_clients))"

section \<open>Alerts\<close>

text \<open>
  \<open>v is not None and v > k\<close> for a cell \<open>v\<close> and a number \<open>k\<close>: \<open>None\<close> stops at the
  first conjunct, and Python refuses to compare a string or a timestamp with a number.
\<close>

fun exceeds :: "cell \<Rightarrow> real \<Rightarrow> error + bool" where
  "exceeds PyNone k = Inr False"
| "exceeds (Num x) k = Inr (fgt x k)"
| "exceeds c k = Inl TypeError"

text \<open>
  The condition of the alert counter in \<open>dashboard\<close>:
  \<open>(co2_val is not None and co2_val > 1000) or (temp_val is not None and temp_val > 25)\<close>,
  on the row \<open>latest\<close>; \<open>or\<close> does not evaluate its right side when the left is true.
\<close>

definition alert_condition :: "row \<Rightarrow> error + bool" where
  "alert_condition latest =
     (case exceeds (row_get latest ''co2_ppm'') 1000 of
        Inl err \<Rightarrow> Inl err
      | Inr True \<Rightarrow> Inr True
      | Inr False \<Rightarrow> exceeds (row_get latest ''temp_c'') 25)"

text \<open>
  An entry of \<open>active_alerts\<close>. The program appends a formatted message; the model keeps
  the parts of the message: the kind, the location, the booth and the value shown.
\<close>

datatype alert = HighCO2 string string int | HighTemp string string pyfloat

text \<open>
  \<open>int(x)\<close> of a float: the fractional part is dropped (rounding towards zero); an
  infinity raises OverflowError and \<open>nan\<close> raises ValueError.
\<close>

fun py_int :: "pyfloat \<Rightarrow> error + int" where
  "py_int (Finite x) = Inr (if 0 \<le> x then \<lfloor>x\<rfloor> else \<lceil>x\<rceil>)"
| "py_int PosInf = Inl OverflowError"
| "py_int NegInf = Inl OverflowError"
| "py_int NaN = Inl ValueError"

text \<open>
  \<open>if (co2_val is not None and co2_val > 1000): active_alerts.append(...)\<close> as the list
  of appended entries, for each kind of cell; the message of the CO2 alert is built with
  \<open>int(co2_val)\<close>. Likewise for \<open>temp_val\<close>, whose message shows the float itself.
\<close>

fun co2_alerts :: "string \<Rightarrow> string \<Rightarrow> cell \<Rightarrow> error + alert list" where
  "co2_alerts l b PyNone = Inr []"
| "co2_alerts l b (Num x) =
     (if fgt x 1000
      then (case py_int x of Inl err \<Rightarrow> Inl err | Inr n \<Rightarrow> Inr [HighCO2 l b n])
      else Inr [])"
| "co2_alerts l b c = Inl TypeError"

fun temp_alerts :: "string \<Rightarrow> string \<Rightarrow> cell \<Rightarrow> error + alert list" where
  "temp_alerts l b PyNone = Inr []"
| "temp_alerts l b (Num x) = Inr (if fgt x 25 then [HighTemp l b x] else [])"
| "temp_alerts l b c = Inl TypeError"

text \<open>The block "Logic for Active Alerts Log" of \<open>dashboard\<close>, on \<open>loc\<close>, \<open>booth_name\<close>, \<open>latest\<close>.\<close>

definition alert_log :: "string \<Rightarrow> string \<Rightarrow> row \<Rightarrow> error + alert list" where
  "alert_log l b latest =
     (case co2_alerts l b (row_get latest ''co2_ppm'') of
        Inl err \<Rightarrow> Inl err
      | Inr a1 \<Rightarrow>
          (case temp_alerts l b (row_get latest ''temp_c'') of
             Inl err \<Rightarrow> Inl err
           | Inr a2 \<Rightarrow> Inr (a1 @ a2)))"

section \<open>Liveness\<close>

text \<open>
  \<open>strftime('%Y-%m-%d %H:%M')\<close> of a timestamp: the civil date of the day number
  (proleptic Gregorian calendar, day 0 is 1970-01-01) and the hour and minute of the day,
  each field in decimal digits padded with zeros.
\<close>

definition ns_per_second :: int where
  "ns_per_second = 1000000000"

definition digit :: "int \<Rightarrow> char" where
  "digit d = ''0123456789'' ! nat (d mod 10)"

definition pad2 :: "int \<Rightarrow> string" where
  "pad2 n = [digit (n div 10), digit n]"

definition pad4 :: "int \<Rightarrow> string" where
  "pad4 n = [digit (n div 1000), digit (n div 100), digit (n div 10), digit n]"

definition civil_from_days :: "int \<Rightarrow> int \<times> int \<times> int" where
  "civil_from_days z0 =
     (let z = z0 + 719468;
          era = z div 146097;
          doe = z mod 146097;
          yoe = (doe - doe div 1460 + doe div 36524 - doe div 146096) div 365;
          doy = doe - (365 * yoe + yoe div 4 - yoe div 100);
          mp = (5 * doy + 2) div 153;
          d = doy - (153 * mp + 2) div 5 + 1;
          m = (if mp < 10 then mp + 3 else mp - 9);
          y = yoe + era * 400 + (if m \<le> 2 then 1 else 0)
      in (y, m, d))"

definition strftime_ymd_hm :: "int \<Rightarrow> string" where
  "strftime_ymd_hm t =
     (let secs = t div ns_per_second;
          (y, m, d) = civil_from_days (secs div 86400);
          sod = secs mod 86400
      in pad4 y @ ''-'' @ pad2 m @ ''-'' @ pad2 d @ '' ''
         @ pad2 (sod div 3600) @ '':'' @ pad2 (sod mod 3600 div 60))"

datatype state = Online | Offline

datatype seen = Never | Seen string

record status =
  location :: string
  booth :: string
  last_seen :: seen
  state :: state

text \<open>\<open>timedelta(hours=1)\<close> and \<open>timedelta(days=1)\<close>, in nanoseconds.\<close>

definition one_hour :: int where
  "one_hour = 3600 * ns_per_second"


text \<open>
  The block "Logic for System Status Panel" of \<open>dashboard\<close>, for each kind of cell that
  \<open>latest.get('time')\<close> can be, at the time \<open>now\<close>. The test \<open>if last_seen:\<close> is Python's
  truth value: false for \<open>None\<close>, for the number 0 and for the empty string, true for
  every timestamp, and true for \<open>NaT\<close> and \<open>nan\<close> as well. In the true branch
  \<open>NaT.strftime\<close> raises ValueError, and subtracting from \<open>datetime.now()\<close>, which
  has no time zone, a timestamp with a time zone, a float or a string raises TypeError.
\<close>

fun system_status_entry :: "int \<Rightarrow> string \<Rightarrow> string \<Rightarrow> cell \<Rightarrow> error + status" where
  "system_status_entry now l b (Timestamp t) =
     Inr \<lparr>location = l, booth = b, last_seen = Seen (strftime_ymd_hm t),
          state = (if now - t > one_hour then Offline else Online)\<rparr>"
| "system_status_entry now l b PyNone =
     Inr \<lparr>location = l, booth = b, last_seen = Never, state = Offline\<rparr>"
| "system_status_entry now l b NaT = Inl ValueError"
| "system_status_entry now l b (TimestampTz t) = Inl TypeError"
| "system_status_entry now l b (Num x) =
     (if x = Finite 0 then Inr \<lparr>location = l, booth = b, last_seen = Never, state = Offline\<rparr>
      else Inl TypeError)"
| "system_status_entry now l b (Str s) =
     (if s = [] then Inr \<lparr>location = l, booth = b, last_seen = Never, state = Offline\<rparr>
      else Inl TypeError)"

section \<open>The dashboard request\<close>

text \<open>
  The local variables of \<open>dashboard\<close> that outlive the loops; \<open>None\<close> is a variable
  that has not been assigned yet.
\<close>

record locals =
  latest_var :: "row option"
  loc_var :: "string option"
  booth_name_var :: "string option"

text \<open>The inner loop \<open>for booth_name in booths_in_loc\<close>, with the counter \<open>alert_count\<close>.\<close>

fun booth_loop :: "env \<Rightarrow> string \<Rightarrow> string list \<Rightarrow> locals \<times> nat \<Rightarrow> error + locals \<times> nat" where
  "booth_loop e l [] (v, alert_count) = Inr (v, alert_count)"
| "booth_loop e l (b # bs) (v, alert_count) =
     (case load_sensor_data e l b of
        Inl err \<Rightarrow> Inl err
      | Inr None \<Rightarrow> booth_loop e l bs (v\<lparr>booth_name_var := Some b\<rparr>, alert_count)
      | Inr (Some df_booth) \<Rightarrow>
          (if \<not> df_empty df_booth
           then (let latest = last (rows df_booth)
                 in case alert_condition latest of
                      Inl err \<Rightarrow> Inl err
                    | Inr hit \<Rightarrow>
                        booth_loop e l bs
                          (v\<lparr>booth_name_var := Some b, latest_var := Some latest\<rparr>,
                           if hit then alert_count + 1 else alert_count))
           else booth_loop e l bs (v\<lparr>booth_name_var := Some b\<rparr>, alert_count)))"

text \<open>The outer loop \<open>for loc in locations\<close>, filling \<open>location_summaries\<close>.\<close>

fun loc_loop ::
  "env \<Rightarrow> clients \<Rightarrow> string list \<Rightarrow> locals \<times> (string \<times> nat) list
     \<Rightarrow> error + locals \<times> (string \<times> nat) list" where
  "loc_loop e df_clients [] (v, summaries) = Inr (v, summaries)"
| "loc_loop e df_clients (l # ls) (v, summaries) =
     (case booth_loop e l (booths_in_loc df_clients l) (v\<lparr>loc_var := Some l\<rparr>, 0) of
        Inl err \<Rightarrow> Inl err
      | Inr (v1, alert_count) \<Rightarrow>
          loc_loop e df_clients ls (v1, AList.update l alert_count summaries))"

record dashboard_result =
  location_summaries :: "(string \<times> nat) list"
  active_alerts :: "alert list"
  system_status :: "status list"

text \<open>
  \<open>dashboard\<close> for a logged-in session, at the time \<open>now\<close>. \<open>client_name\<close> is the
  argument passed to \<open>get_locations\<close>. After both loops, at the indentation of the
  function body, the alert log and the status panel are computed once, from the variables
  \<open>latest\<close>, \<open>loc\<close> and \<open>booth_name\<close> as the loops left them; reading a variable
  that was never assigned raises UnboundLocalError. The key figures of the spotlight
  booth and the rendering of the page are not modelled.
\<close>

definition dashboard :: "env \<Rightarrow> clients \<Rightarrow> string option \<Rightarrow> int \<Rightarrow> error + dashboard_result" where
  "dashboard e df_clients client_name now =
     (let locations = get_locations df_clients client_name
      in case loc_loop e df_clients locations
                (\<lparr>latest_var = None, loc_var = None, booth_name_var = None\<rparr>, [])
         of Inl err \<Rightarrow> Inl err
          | Inr (v, summaries) \<Rightarrow>
              (case (latest_var v, loc_var v, booth_name_var v) of
                 (Some latest, Some l, Some b) \<Rightarrow>
                   (case alert_log l b latest of
                      Inl err \<Rightarrow> Inl err
                    | Inr alerts \<Rightarrow>
                        (case system_status_entry now l b (row_get latest ''time'') of
                           Inl err \<Rightarrow> Inl err
                         | Inr st \<Rightarrow>
                             Inr \<lparr>location_summaries = summaries, active_alerts = alerts,
                                  system_status = [st]\<rparr>))
               | _ \<Rightarrow> Inl UnboundLocalError))"

section \<open>Historical context of a booth\<close>





definition fmean :: "pyfloat list \<Rightarrow> pyfloat" where
  "fmean xs = (if xs = [] then NaN else fdiv_count (foldr fadd xs (Finite 0)) (length xs))"





section \<open>Notions used in the statements\<close>

text \<open>
  The three forms of a missing value; the cells of a numeric column after
  \<open>pd.to_numeric\<close>; the cells of the time column after \<open>pd.to_datetime\<close>.
\<close>

fun is_missing :: "cell \<Rightarrow> bool" where
  "is_missing PyNone = True"
| "is_missing (Num x) = (x = NaN)"
| "is_missing NaT = True"
| "is_missing c = False"

fun is_numeric :: "cell \<Rightarrow> bool" where
  "is_numeric (Num x) = True"
| "is_numeric c = False"

fun is_time :: "cell \<Rightarrow> bool" where
  "is_time NaT = True"
| "is_time (Timestamp t) = True"
| "is_time (TimestampTz t) = True"
| "is_time c = False"

text \<open>
  A row of a normalised frame: its three sensor columns hold floats, its time column a
  timestamp or \<open>NaT\<close>.
\<close>

definition normalized_row :: "row \<Rightarrow> bool" where
  "normalized_row r =
     ((\<forall>c\<in>set numeric_cols. \<exists>v. map_of r c = Some v \<and> is_numeric v)
      \<and> (\<exists>v. map_of r ''time'' = Some v \<and> is_time v))"


text \<open>
  What the three steps of the normalisation do to a single row of a frame with the
  columns \<open>cols\<close>.
\<close>

definition ens_row :: "string list \<Rightarrow> row \<Rightarrow> row" where
  "ens_row cols r =
     fold (\<lambda>c r. if c \<in> set cols then r else AList.update c PyNone r) required_cols r"

definition num_row :: "(string \<Rightarrow> pyfloat option) \<Rightarrow> row \<Rightarrow> row" where
  "num_row pf r =
     fold (\<lambda>c r. AList.update c (to_numeric pf (row_get r c)) r) numeric_cols r"

definition time_row :: "(string \<Rightarrow> int option) \<Rightarrow> bool \<Rightarrow> row \<Rightarrow> row" where
  "time_row pt tz r = AList.update ''time'' (to_datetime pt tz (row_get r ''time'')) r"

section \<open>Example data\<close>

text \<open>
  A small installation used to evaluate the program at concrete inputs. The remote
  worksheet is not connected. Under \<open>data/\<close> there are: the file of Sydney, Booth 1
  (two records, the newer one with 1500 ppm, listed first); the file of Sydney, Booth 3
  (a header and no record); the file of Sydney, Booth 4 (which \<open>pd.read_csv\<close> cannot
  parse); the file of Perth, Booth 1 (one record whose time is not a date). Sydney,
  Booth 2 has no file. A column of dates has a time zone when one of its strings carries
  an offset. The sort leaves rows of equal time in their order.
\<close>

definition ex_parse_float :: "string \<Rightarrow> pyfloat option" where
  "ex_parse_float = map_of [(''1500'', Finite 1500), (''21.5'', Finite 21.5), (''inf'', PosInf)]"

definition ex_parse_datetime :: "string \<Rightarrow> int option" where
  "ex_parse_datetime =
     map_of [(''2024-01-01 10:00'', 1704103200000000000),
             (''2023-12-30 10:00'', 1703930400000000000),
             (''2023-12-30 11:00'', 1703934000000000000),
             (''2024-01-01 10:00+00:00'', 1704103200000000000),
             (''2023-12-30 10:00+00:00'', 1703930400000000000)]"

definition ex_tz_aware :: "cell list \<Rightarrow> bool" where
  "ex_tz_aware cs = list_ex (\<lambda>c. case c of Str s \<Rightarrow> CHR ''+'' \<in> set s | _ \<Rightarrow> False) cs"

definition ex_now :: int where
  "ex_now = 1704105000000000000"

definition ex_booth1 :: frame where
  "ex_booth1 =
     \<lparr>columns = [''time'', ''temp_c'', ''co2_ppm''],
      rows = [[(''time'', Str ''2024-01-01 10:00''), (''temp_c'', Num (Finite 21.5)),
               (''co2_ppm'', Str ''1500'')],
              [(''time'', Str ''2023-12-30 10:00''), (''temp_c'', Num (Finite 20)),
               (''co2_ppm'', Str ''err'')]]\<rparr>"

definition ex_booth3 :: frame where
  "ex_booth3 =
     \<lparr>columns = [''time'', ''temp_c'', ''humidity_pct'', ''co2_ppm'', ''pir_state''], rows = []\<rparr>"

definition ex_perth1 :: frame where
  "ex_perth1 =
     \<lparr>columns = [''time'', ''temp_c'', ''co2_ppm''],
      rows = [[(''time'', Str ''yesterday''), (''temp_c'', Num (Finite 20)),
               (''co2_ppm'', Num (Finite 400))]]\<rparr>"

definition ex_files :: "string \<Rightarrow> (error + frame) option" where
  "ex_files =
     map_of [(''data/Sydney_Booth1.csv'', Inr ex_booth1),
             (''data/Sydney_Booth3.csv'', Inr ex_booth3),
             (''data/Sydney_Booth4.csv'', Inl SourceError),
             (''data/Perth_Booth1.csv'', Inr ex_perth1)]"

definition ex_env :: env where
  "ex_env = \<lparr>worksheet = None, files = ex_files,
             parse_float = ex_parse_float, parse_datetime = ex_parse_datetime,
             tz_aware = ex_tz_aware, tie_order = (\<lambda>rs r. 0)\<rparr>"

text \<open>The same installation with a worksheet whose \<open>get_all_records\<close> raises.\<close>

definition ex_env_unreachable :: env where
  "ex_env_unreachable = ex_env\<lparr>worksheet := Some (Inl SourceError)\<rparr>"









text \<open>The frames that the normalisation returns for these inputs.\<close>

definition ex_booth1_loaded :: frame where
  "ex_booth1_loaded =
     \<lparr>columns = [''time'', ''temp_c'', ''co2_ppm'', ''humidity_pct'', ''pir_state''],
      rows =
        [[(''time'', Timestamp 1703930400000000000), (''temp_c'', Num (Finite 20)),
          (''co2_ppm'', Num NaN), (''humidity_pct'', Num NaN), (''pir_state'', PyNone)],
         [(''time'', Timestamp 1704103200000000000), (''temp_c'', Num (Finite 21.5)),
          (''co2_ppm'', Num (Finite 1500)), (''humidity_pct'', Num NaN),
          (''pir_state'', PyNone)]]\<rparr>"





section \<open>Basic facts about frames\<close>

lemma row_get_update [simp]:
  "row_get (AList.update c v r) k = (if k = c then v else row_get r k)"
  by (simp add: row_get_def update_conv')

lemma rows_assign [simp]: "rows (assign c f d) = map (\<lambda>r. AList.update c (f r) r) (rows d)"
  by (simp add: assign_def)

lemma set_columns_assign [simp]: "set (columns (assign c f d)) = insert c (set (columns d))"
  by (auto simp add: assign_def)

lemma rows_ensure_col:
  "rows (ensure_col c d) = map (\<lambda>r. if c \<in> set (columns d) then r else AList.update c PyNone r) (rows d)"
  by (simp add: ensure_col_def)

lemma set_columns_ensure_col: "set (columns (ensure_col c d)) = insert c (set (columns d))"
  by (auto simp add: ensure_col_def)

lemma set_columns_ensure_cols:
  "set (columns (ensure_cols df)) = set (columns df) \<union> set required_cols"
  by (auto simp add: ensure_cols_def required_cols_def set_columns_ensure_col)

lemma rows_ensure_cols: "rows (ensure_cols df) = map (ens_row (columns df)) (rows df)"
  by (simp add: ensure_cols_def ens_row_def required_cols_def rows_ensure_col
      set_columns_ensure_col o_def)

lemma columns_numeric_col [simp]: "columns (numeric_col pf c d) = columns d"
  by (simp add: numeric_col_def assign_def)

lemma rows_numeric_col:
  "c \<in> set (columns d) \<Longrightarrow>
   rows (numeric_col pf c d) = map (\<lambda>r. AList.update c (to_numeric pf (row_get r c)) r) (rows d)"
  by (simp add: numeric_col_def)

lemma columns_coerce_numeric [simp]: "columns (coerce_numeric pf d) = columns d"
  by (simp add: coerce_numeric_def numeric_cols_def)

lemma rows_coerce_numeric:
  "set numeric_cols \<subseteq> set (columns d) \<Longrightarrow> rows (coerce_numeric pf d) = map (num_row pf) (rows d)"
  by (simp add: coerce_numeric_def num_row_def numeric_cols_def rows_numeric_col o_def)

lemma columns_coerce_time [simp]: "columns (coerce_time pt tza d) = columns d"
  by (simp add: coerce_time_def convert_time_def assign_def)

lemma rows_coerce_time:
  "''time'' \<in> set (columns d) \<Longrightarrow>
   rows (coerce_time pt tza d)
     = map (time_row pt (tza (map (\<lambda>r. row_get r ''time'') (rows d)))) (rows d)"
  by (simp add: coerce_time_def convert_time_def time_row_def)

lemma rows_coerced:
  "\<exists>tz. rows (coerce_time pt tza (coerce_numeric pf (ensure_cols df)))
     = map (\<lambda>r. time_row pt tz (num_row pf (ens_row (columns df) r))) (rows df)"
proof -
  have "''time'' \<in> set (columns (coerce_numeric pf (ensure_cols df)))"
    by (simp add: set_columns_ensure_cols required_cols_def)
  then have "rows (coerce_time pt tza (coerce_numeric pf (ensure_cols df)))
     = map (\<lambda>r. time_row pt
                 (tza (map (\<lambda>r. row_get r ''time'') (rows (coerce_numeric pf (ensure_cols df)))))
                 (num_row pf (ens_row (columns df) r))) (rows df)"
    by (simp add: rows_coerce_time)
      (simp add: rows_coerce_numeric rows_ensure_cols set_columns_ensure_cols
        required_cols_def numeric_cols_def o_def)
  then show ?thesis by blast
qed

lemma row_get_ens_row:
  "row_get (ens_row cols r) k =
     (if k \<in> set required_cols \<and> k \<notin> set cols then PyNone else row_get r k)"
proof -
  have "row_get (fold (\<lambda>c r. if c \<in> set cols then r else AList.update c PyNone r) cs r) k =
     (if k \<in> set cs \<and> k \<notin> set cols then PyNone else row_get r k)" for cs
    by (induction cs arbitrary: r) auto
  then show ?thesis by (simp add: ens_row_def)
qed

lemma row_get_num_row:
  "row_get (num_row pf r) k =
     (if k \<in> set numeric_cols then to_numeric pf (row_get r k) else row_get r k)"
  by (simp add: num_row_def numeric_cols_def)

lemma row_get_time_row:
  "row_get (time_row pt tz r) k =
     (if k = ''time'' then to_datetime pt tz (row_get r k) else row_get r k)"
  by (simp add: time_row_def)

lemma is_numeric_to_numeric [simp]: "is_numeric (to_numeric pf c)"
  by (cases c) (auto split: option.splits)

lemma is_time_to_datetime [simp]: "is_time (to_datetime pt tz c)"
  by (induction pt tz c rule: to_datetime.induct) (auto simp: stamp_def split: option.splits)



lemma map_of_time_row:
  "map_of (time_row pt tz r) k =
     (if k = ''time'' then Some (to_datetime pt tz (row_get r ''time'')) else map_of r k)"
  by (simp add: time_row_def update_conv')

lemma map_of_num_row:
  "map_of (num_row pf r) k =
     (if k \<in> set numeric_cols then Some (to_numeric pf (row_get r k)) else map_of r k)"
  by (simp add: num_row_def numeric_cols_def update_conv')

lemma normalized_row_coerced: "normalized_row (time_row pt tz (num_row pf r))"
  by (simp add: normalized_row_def map_of_time_row map_of_num_row numeric_cols_def)

lemma mset_quicksort_time [simp]: "mset (quicksort_time tie rs) = mset rs"
  by (simp add: quicksort_time_def)

lemma set_quicksort_time [simp]: "set (quicksort_time tie rs) = set rs"
  by (simp add: quicksort_time_def)

lemma sorted_quicksort_time [simp]: "sorted (map time_key (quicksort_time tie rs))"
  by (simp add: quicksort_time_def)

lemma set_rows_sort_values_time [simp]: "set (rows (sort_values_time tie d)) = set (rows d)"
  by (auto simp add: sort_values_time_def)

lemma mset_rows_sort_values_time [simp]: "mset (rows (sort_values_time tie d)) = mset (rows d)"
  by (simp add: sort_values_time_def)

lemma columns_sort_values_time [simp]: "columns (sort_values_time tie d) = columns d"
  by (simp add: sort_values_time_def)

lemma normalize_frame_SomeD:
  assumes "normalize_frame e dfo = Some out"
  obtains df where "dfo = Some df" "\<not> df_empty df"
    "out = sort_values_time (tie_order e)
             (coerce_time (parse_datetime e) (tz_aware e)
                (coerce_numeric (parse_float e) (ensure_cols df)))"
  using assms by (auto simp: normalize_frame_def split: option.splits if_splits)

lemma normalized_rows:
  assumes "normalize_frame e dfo = Some out" "r \<in> set (rows out)"
  shows "normalized_row r"
proof -
  from assms(1) obtain df where
    out: "out = sort_values_time (tie_order e)
             (coerce_time (parse_datetime e) (tz_aware e)
                (coerce_numeric (parse_float e) (ensure_cols df)))"
    by (rule normalize_frame_SomeD)
  obtain tz where "rows (coerce_time (parse_datetime e) (tz_aware e)
                (coerce_numeric (parse_float e) (ensure_cols df)))
     = map (\<lambda>r. time_row (parse_datetime e) tz (num_row (parse_float e) (ens_row (columns df) r)))
         (rows df)"
    using rows_coerced by blast
  with assms(2) show ?thesis
    unfolding out by (auto simp: normalized_row_coerced)
qed


lemma time_present_sorted_part:
  "filter time_present (rows (sort_values_time tie d))
     = quicksort_time tie (filter time_present (rows d))"
proof -
  have "filter time_present (quicksort_time tie (filter time_present (rows d)))
      = quicksort_time tie (filter time_present (rows d))"
    by (rule filter_True) simp
  then show ?thesis by (simp add: sort_values_time_def)
qed

lemma time_missing_part:
  "filter (\<lambda>r. \<not> time_present r) (rows (sort_values_time tie d))
     = filter (\<lambda>r. \<not> time_present r) (rows d)"
proof -
  have "filter (\<lambda>r. \<not> time_present r) (quicksort_time tie (filter time_present (rows d))) = []"
    by (simp add: filter_empty_conv)
  then show ?thesis by (simp add: sort_values_time_def)
qed

lemma rows_sort_values_time_split:
  "rows (sort_values_time tie d)
     = filter time_present (rows (sort_values_time tie d))
       @ filter (\<lambda>r. \<not> time_present r) (rows (sort_values_time tie d))"
  by (simp add: time_present_sorted_part time_missing_part) (simp add: sort_values_time_def)





section \<open>Properties of the record sources\<close>

lemma get_data_from_sheet_try_files [simp]:
  "get_data_from_sheet_try (e\<lparr>files := fs\<rparr>) fetched = get_data_from_sheet_try e fetched"
  by (simp add: get_data_from_sheet_try_def Let_def split: sum.splits)

lemma get_data_from_sheet_files [simp]:
  "get_data_from_sheet (e\<lparr>files := fs\<rparr>) = get_data_from_sheet e"
  by (simp add: get_data_from_sheet_def split: option.splits)

lemma normalize_frame_files [simp]: "normalize_frame (e\<lparr>files := fs\<rparr>) dfo = normalize_frame e dfo"
  by (simp add: normalize_frame_def split: option.splits)

lemma fetch_remote:
  "fetch e ''Adelaide'' ''Booth A'' = Inr (get_data_from_sheet e)"
  by (simp add: fetch_def remove_spaces_def)

text \<open>
  C10. The result of \<open>load_sensor_data\<close> depends on the booth name only through the name
  with its spaces removed: two booth names that are equal after the removal give the same
  result at every location; and \<open>Adelaide\<close> with \<open>Booth A\<close> is read from the remote
  worksheet, whatever the local files are.
\<close>

theorem load_sensor_data_booth_spaces:
  "(remove_spaces b1 = remove_spaces b2 \<longrightarrow>
      load_sensor_data e loc b1 = load_sensor_data e loc b2)
   \<and> load_sensor_data e ''Adelaide'' ''Booth A'' = Inr (normalize_frame e (get_data_from_sheet e))
   \<and> load_sensor_data (e\<lparr>files := fs\<rparr>) ''Adelaide'' ''Booth A''
       = load_sensor_data e ''Adelaide'' ''Booth A''"
  by (simp add: load_sensor_data_def fetch_remote) (simp add: fetch_def)

theorem load_sensor_data_booth_spaces_witness:
  "remove_spaces ''Booth 1'' = remove_spaces ''Booth1''
   \<and> load_sensor_data ex_env ''Sydney'' ''Booth 1'' = load_sensor_data ex_env ''Sydney'' ''Booth1''"
  using load_sensor_data_booth_spaces [of "''Booth 1''" "''Booth1''" ex_env "''Sydney''"]
  by (simp add: remove_spaces_def)

section \<open>Properties of the normalisation\<close>

lemma ex_booth1_normalized: "normalize_frame ex_env (Some ex_booth1) = Some ex_booth1_loaded"
  by code_simp

lemma sorted_le_last: "sorted xs \<Longrightarrow> x \<in> set xs \<Longrightarrow> x \<le> last (xs :: int list)"
  by (induction xs) auto

text \<open>
  C7. Every frame returned by the normalisation is sorted by time over its rows with a
  timestamp: their times are non-decreasing, so the last of them has the latest time; the
  rows without a timestamp follow them.
\<close>

theorem normalize_frame_sorted:
  assumes "normalize_frame e dfo = Some out"
  shows "sorted (map time_key (filter time_present (rows out)))
     \<and> (\<forall>r\<in>set (rows out). time_present r \<longrightarrow>
            time_key r \<le> time_key (last (filter time_present (rows out))))
     \<and> rows out = filter time_present (rows out) @ filter (\<lambda>r. \<not> time_present r) (rows out)"
proof -
  obtain df where
    out: "out = sort_values_time (tie_order e)
             (coerce_time (parse_datetime e) (tz_aware e)
                (coerce_numeric (parse_float e) (ensure_cols df)))"
    using assms by (rule normalize_frame_SomeD)
  let ?P = "filter time_present (rows out)"
  have s: "sorted (map time_key ?P)"
    unfolding out by (simp add: time_present_sorted_part)
  have l: "time_key r \<le> time_key (last ?P)" if "r \<in> set (rows out)" "time_present r" for r
  proof -
    from that have r: "r \<in> set ?P" by simp
    then have ne: "?P \<noteq> []" by (metis empty_iff empty_set)
    from r have "time_key r \<in> set (map time_key ?P)" by (metis image_eqI set_map)
    with s have "time_key r \<le> last (map time_key ?P)" by (rule sorted_le_last)
    with ne show ?thesis by (simp add: last_map)
  qed
  have p: "rows out = ?P @ filter (\<lambda>r. \<not> time_present r) (rows out)"
    unfolding out by (rule rows_sort_values_time_split)
  from s l p show ?thesis by blast
qed

theorem normalize_frame_sorted_witness:
  "normalize_frame ex_env (Some ex_booth1) = Some ex_booth1_loaded
   \<and> sorted (map time_key (filter time_present (rows ex_booth1_loaded)))
   \<and> time_present (hd (rows ex_booth1_loaded))
   \<and> time_key (hd (rows ex_booth1_loaded))
        \<le> time_key (last (filter time_present (rows ex_booth1_loaded)))
   \<and> rows ex_booth1_loaded = filter time_present (rows ex_booth1_loaded)
        @ filter (\<lambda>r. \<not> time_present r) (rows ex_booth1_loaded)"
  using normalize_frame_sorted [OF ex_booth1_normalized] ex_booth1_normalized
  by (simp add: ex_booth1_loaded_def time_present_def time_key_def row_get_def)

lemma row_get_coerced:
  "row_get (time_row pt tz (num_row pf (ens_row cols r))) k =
     (if k \<in> set numeric_cols
      then to_numeric pf (if k \<in> set cols then row_get r k else PyNone)
      else if k = ''time''
      then to_datetime pt tz (if ''time'' \<in> set cols then row_get r ''time'' else PyNone)
      else if k = ''pir_state'' \<and> ''pir_state'' \<notin> set cols then PyNone
      else row_get r k)"
  by (auto simp add: row_get_time_row row_get_num_row row_get_ens_row numeric_cols_def
      required_cols_def)

lemma normalized_row_numeric:
  "normalized_row r \<Longrightarrow> c \<in> set numeric_cols \<Longrightarrow> is_numeric (row_get r c)"
  by (auto simp: normalized_row_def row_get_def)

lemma normalized_row_time: "normalized_row r \<Longrightarrow> is_time (row_get r ''time'')"
  by (auto simp: normalized_row_def row_get_def)

text \<open>
  C6. The normalisation of a frame that is not empty never raises and returns a frame:
  every required column that the fetched frame lacks is present afterwards and holds a
  missing value in every row; the rows of the result are the rows of the fetched frame
  in some order, each sensor column converted by \<open>pd.to_numeric\<close>, so that every cell
  of a sensor column is a number or \<open>nan\<close>; and a string that is empty or that the
  parser of numerals rejects is converted to \<open>nan\<close>.
\<close>

theorem normalize_frame_total:
  assumes "\<not> df_empty df"
  shows "\<exists>out. normalize_frame e (Some df) = Some out
     \<and> (\<forall>c\<in>set required_cols. c \<notin> set (columns df) \<longrightarrow>
           c \<in> set (columns out) \<and> (\<forall>r\<in>set (rows out). is_missing (row_get r c)))
     \<and> (\<exists>rs. mset rs = mset (rows out)
           \<and> list_all2 (\<lambda>r r'. \<forall>c\<in>set numeric_cols. c \<in> set (columns df) \<longrightarrow>
                          row_get r' c = to_numeric (parse_float e) (row_get r c))
                 (rows df) rs)
     \<and> (\<forall>r\<in>set (rows out). \<forall>c\<in>set numeric_cols. is_numeric (row_get r c))
     \<and> (\<forall>s. s = [] \<or> parse_float e s = None \<longrightarrow> to_numeric (parse_float e) (Str s) = Num NaN)"
proof -
  let ?pf = "parse_float e" and ?pt = "parse_datetime e"
  let ?U = "coerce_time ?pt (tz_aware e) (coerce_numeric ?pf (ensure_cols df))"
  let ?out = "sort_values_time (tie_order e) ?U"
  obtain tz where U: "rows ?U = map (\<lambda>r. time_row ?pt tz (num_row ?pf (ens_row (columns df) r))) (rows df)"
    using rows_coerced by blast
  let ?G = "\<lambda>r. time_row ?pt tz (num_row ?pf (ens_row (columns df) r))"
  have out: "normalize_frame e (Some df) = Some ?out"
    using assms by (simp add: normalize_frame_def)
  have set_rows: "set (rows ?out) = ?G ` set (rows df)"
    by (simp add: U)
  have a: "c \<in> set (columns ?out) \<and> (\<forall>r\<in>set (rows ?out). is_missing (row_get r c))"
    if "c \<in> set required_cols" "c \<notin> set (columns df)" for c
  proof
    show "c \<in> set (columns ?out)" using that(1) by (simp add: set_columns_ensure_cols)
    show "\<forall>r\<in>set (rows ?out). is_missing (row_get r c)"
      unfolding set_rows using that
      by (auto simp add: row_get_coerced required_cols_def numeric_cols_def)
  qed
  have b1: "mset (map ?G (rows df)) = mset (rows ?out)"
    by (simp add: U)
  have b2: "list_all2 (\<lambda>r r'. \<forall>c\<in>set numeric_cols. c \<in> set (columns df) \<longrightarrow>
                          row_get r' c = to_numeric ?pf (row_get r c))
                 (rows df) (map ?G (rows df))"
    by (simp add: list_all2_map2 list_all2_same row_get_coerced)
  have c: "\<forall>r\<in>set (rows ?out). \<forall>c\<in>set numeric_cols. is_numeric (row_get r c)"
    using normalized_rows[OF out] normalized_row_numeric by blast
  have d: "\<forall>s. s = [] \<or> ?pf s = None \<longrightarrow> to_numeric ?pf (Str s) = Num NaN"
    by auto
  from out a b1 b2 c d show ?thesis by blast
qed

lemma ex_booth1_not_empty: "\<not> df_empty ex_booth1"
  by (simp add: df_empty_def ex_booth1_def)

theorem normalize_frame_total_witness:
  "\<not> df_empty ex_booth1
   \<and> normalize_frame ex_env (Some ex_booth1) = Some ex_booth1_loaded
   \<and> ''humidity_pct'' \<notin> set (columns ex_booth1)
   \<and> ''humidity_pct'' \<in> set (columns ex_booth1_loaded)
   \<and> is_missing (row_get (hd (rows ex_booth1_loaded)) ''humidity_pct'')
   \<and> is_numeric (row_get (hd (rows ex_booth1_loaded)) ''co2_ppm'')
   \<and> to_numeric (parse_float ex_env) (Str ''err'') = Num NaN"
proof -
  from normalize_frame_total [OF ex_booth1_not_empty, of ex_env] obtain out where
    o: "normalize_frame ex_env (Some ex_booth1) = Some out"
    and m: "\<forall>c\<in>set required_cols. c \<notin> set (columns ex_booth1) \<longrightarrow>
           c \<in> set (columns out) \<and> (\<forall>r\<in>set (rows out). is_missing (row_get r c))"
    and n: "\<forall>r\<in>set (rows out). \<forall>c\<in>set numeric_cols. is_numeric (row_get r c)"
    and p: "\<forall>s. s = [] \<or> parse_float ex_env s = None \<longrightarrow>
              to_numeric (parse_float ex_env) (Str s) = Num NaN"
    by blast
  from o have out: "out = ex_booth1_loaded" by (simp add: ex_booth1_normalized)
  have h: "''humidity_pct'' \<in> set required_cols" "''humidity_pct'' \<notin> set (columns ex_booth1)"
    by (simp_all add: required_cols_def ex_booth1_def)
  have r: "hd (rows ex_booth1_loaded) \<in> set (rows ex_booth1_loaded)"
    by (simp add: ex_booth1_loaded_def)
  have c: "''co2_ppm'' \<in> set numeric_cols" by (simp add: numeric_cols_def)
  have f: "parse_float ex_env ''err'' = None" by (simp add: ex_env_def ex_parse_float_def)
  from m h have 1: "''humidity_pct'' \<in> set (columns ex_booth1_loaded)"
    and 2: "is_missing (row_get (hd (rows ex_booth1_loaded)) ''humidity_pct'')"
    using r unfolding out by blast+
  from n r c have 3: "is_numeric (row_get (hd (rows ex_booth1_loaded)) ''co2_ppm'')"
    unfolding out by blast
  from p f have 4: "to_numeric (parse_float ex_env) (Str ''err'') = Num NaN" by blast
  from ex_booth1_not_empty ex_booth1_normalized h(2) 1 2 3 4 show ?thesis by blast
qed








section \<open>Absent sources\<close>

text \<open>
  C8. \<open>load_sensor_data\<close> returns \<open>None\<close> and raises nothing when the source of the
  booth is unavailable: for the remote booth when the worksheet was never connected or
  reading it raises, for every other booth when its file does not exist or
  \<open>pd.read_csv\<close> raises on it. In every case the function returns and does not raise.
\<close>

theorem load_sensor_data_absent:
  "(loc = ''Adelaide'' \<and> remove_spaces b = ''BoothA'' \<longrightarrow>
      (worksheet e = None \<longrightarrow> load_sensor_data e loc b = Inr None)
      \<and> (\<forall>err. worksheet e = Some (Inl err) \<longrightarrow> load_sensor_data e loc b = Inr None))
   \<and> (\<not> (loc = ''Adelaide'' \<and> remove_spaces b = ''BoothA'') \<longrightarrow>
      (files e (csv_path loc (remove_spaces b)) = None \<longrightarrow> load_sensor_data e loc b = Inr None)
      \<and> (\<forall>err. files e (csv_path loc (remove_spaces b)) = Some (Inl err) \<longrightarrow>
             load_sensor_data e loc b = Inr None))
   \<and> (\<exists>r. load_sensor_data e loc b = Inr r)"
  by (auto simp add: load_sensor_data_def fetch_def get_data_from_sheet_def
      get_data_from_sheet_try_def normalize_frame_def split: sum.splits option.splits)

theorem load_sensor_data_absent_witness:
  "worksheet ex_env = None
   \<and> load_sensor_data ex_env ''Adelaide'' ''Booth A'' = Inr None
   \<and> worksheet ex_env_unreachable = Some (Inl SourceError)
   \<and> load_sensor_data ex_env_unreachable ''Adelaide'' ''Booth A'' = Inr None
   \<and> files ex_env (csv_path ''Sydney'' (remove_spaces ''Booth 2'')) = None
   \<and> load_sensor_data ex_env ''Sydney'' ''Booth 2'' = Inr None
   \<and> files ex_env (csv_path ''Sydney'' (remove_spaces ''Booth 4'')) = Some (Inl SourceError)
   \<and> load_sensor_data ex_env ''Sydney'' ''Booth 4'' = Inr None"
  using load_sensor_data_absent [of "''Adelaide''" "''Booth A''" ex_env]
    load_sensor_data_absent [of "''Adelaide''" "''Booth A''" ex_env_unreachable]
    load_sensor_data_absent [of "''Sydney''" "''Booth 2''" ex_env]
    load_sensor_data_absent [of "''Sydney''" "''Booth 4''" ex_env]
  by (simp add: ex_env_def ex_env_unreachable_def ex_files_def csv_path_def remove_spaces_def)

section \<open>Properties of the alert log\<close>

lemma py_int_floor: "0 \<le> x \<Longrightarrow> py_int (Finite x) = Inr \<lfloor>x\<rfloor>"
  by simp

text \<open>
  C2, as the program behaves. On a row whose \<open>co2_ppm\<close> and \<open>temp_c\<close> cells are
  normalised (floats) and whose \<open>co2_ppm\<close> is not the positive infinity, the alert log
  holds a HighCO2 entry exactly when \<open>co2_ppm\<close> is greater than 1000, with that number
  cut to an integer, and a HighTemp entry exactly when \<open>temp_c\<close> is greater than 25,
  with that float itself; the two rules do not influence each other, and \<open>nan\<close> gives no
  entry.
\<close>

theorem alert_log_thresholds:
  assumes "is_numeric (row_get latest ''co2_ppm'')" "is_numeric (row_get latest ''temp_c'')"
    and "row_get latest ''co2_ppm'' \<noteq> Num PosInf"
  shows "alert_log l b latest =
     Inr ((case row_get latest ''co2_ppm'' of
             Num (Finite x) \<Rightarrow> if x > 1000 then [HighCO2 l b \<lfloor>x\<rfloor>] else []
           | _ \<Rightarrow> [])
          @ (case row_get latest ''temp_c'' of
               Num y \<Rightarrow> if fgt y 25 then [HighTemp l b y] else []
             | _ \<Rightarrow> []))"
proof -
  from assms(1) obtain c where c: "row_get latest ''co2_ppm'' = Num c"
    by (cases "row_get latest ''co2_ppm''") auto
  from assms(2) obtain t where t: "row_get latest ''temp_c'' = Num t"
    by (cases "row_get latest ''temp_c''") auto
  from assms(3) c have "c \<noteq> PosInf" by simp
  then have 1: "co2_alerts l b (Num c) =
      Inr (case c of Finite x \<Rightarrow> if x > 1000 then [HighCO2 l b \<lfloor>x\<rfloor>] else [] | _ \<Rightarrow> [])"
    by (cases c) (simp_all add: py_int_floor)
  show ?thesis
    by (simp add: alert_log_def c t 1 del: co2_alerts.simps)
qed

theorem alert_log_thresholds_witness:
  "is_numeric (row_get [(''co2_ppm'', Num (Finite 1001)), (''temp_c'', Num (Finite 25.1))] ''co2_ppm'')
   \<and> is_numeric (row_get [(''co2_ppm'', Num (Finite 1001)), (''temp_c'', Num (Finite 25.1))] ''temp_c'')
   \<and> row_get [(''co2_ppm'', Num (Finite 1001)), (''temp_c'', Num (Finite 25.1))] ''co2_ppm''
        \<noteq> Num PosInf
   \<and> alert_log ''Sydney'' ''Booth 1'' [(''co2_ppm'', Num (Finite 1001)), (''temp_c'', Num (Finite 25.1))]
        = Inr [HighCO2 ''Sydney'' ''Booth 1'' 1001, HighTemp ''Sydney'' ''Booth 1'' (Finite 25.1)]
   \<and> alert_log ''Sydney'' ''Booth 1'' [(''co2_ppm'', Num (Finite 1000)), (''temp_c'', Num (Finite 25))]
        = Inr []
   \<and> alert_log ''Sydney'' ''Booth 1'' [(''co2_ppm'', Num NaN), (''temp_c'', Num NaN)] = Inr []
   \<and> alert_log ''Sydney'' ''Booth 1'' [(''co2_ppm'', Num (Finite 1500.7)), (''temp_c'', Num NaN)]
        = Inr [HighCO2 ''Sydney'' ''Booth 1'' 1500]
   \<and> alert_log ''Sydney'' ''Booth 1'' [(''co2_ppm'', Num NegInf), (''temp_c'', Num PosInf)]
        = Inr [HighTemp ''Sydney'' ''Booth 1'' PosInf]"
  using alert_log_thresholds [of "[(''co2_ppm'', Num (Finite 1001)), (''temp_c'', Num (Finite 25.1))]" "''Sydney''" "''Booth 1''"]
    alert_log_thresholds [of "[(''co2_ppm'', Num (Finite 1000)), (''temp_c'', Num (Finite 25))]" "''Sydney''" "''Booth 1''"]
    alert_log_thresholds [of "[(''co2_ppm'', Num NaN), (''temp_c'', Num NaN)]" "''Sydney''" "''Booth 1''"]
    alert_log_thresholds [of "[(''co2_ppm'', Num (Finite 1500.7)), (''temp_c'', Num NaN)]" "''Sydney''" "''Booth 1''"]
    alert_log_thresholds [of "[(''co2_ppm'', Num NegInf), (''temp_c'', Num PosInf)]" "''Sydney''" "''Booth 1''"]
  by (simp add: row_get_def)

text \<open>
  The claim as it was stated covers every normalised row. A numeral such as \<open>inf\<close> is
  converted to the positive infinity, which is greater than 1000, and \<open>int\<close> of it
  raises OverflowError: the alert log raises and holds no entry.
\<close>

theorem alert_log_infinite_counterexample:
  "to_numeric ex_parse_float (Str ''inf'') = Num PosInf
   \<and> is_numeric (Num PosInf)
   \<and> alert_log ''Sydney'' ''Booth 1'' [(''co2_ppm'', Num PosInf), (''temp_c'', Num (Finite 20))]
        = Inl OverflowError"
  by code_simp

section \<open>Properties of the status panel\<close>

text \<open>
  For a latest row with a timestamp the status entry shows the formatted time and is
  Offline exactly when the age exceeds one hour: an age of one hour is Online, one second
  more is Offline.
\<close>

lemma system_status_entry_present:
  "system_status_entry now l b (Timestamp t) =
     Inr \<lparr>location = l, booth = b, last_seen = Seen (strftime_ymd_hm t),
          state = (if now - t > one_hour then Offline else Online)\<rparr>"
  by simp

lemma system_status_entry_boundary:
  "state (projr (system_status_entry (t + one_hour) l b (Timestamp t))) = Online"
  "state (projr (system_status_entry (t + one_hour + ns_per_second) l b (Timestamp t))) = Offline"
  by (simp_all add: ns_per_second_def)

text \<open>
  C3. The claim: when no reading exists or the time of the latest reading is missing the
  status is Never and Offline, otherwise Offline exactly when the age exceeds one hour.
  The program at a missing time: the file of Perth, Booth 1 holds one record whose time
  is not a date, so the loaded frame has \<open>NaT\<close> in its time column; \<open>NaT\<close> is true in
  \<open>if last_seen:\<close>, the branch for Never and Offline is not taken, and
  \<open>last_seen.strftime\<close> raises, so the request fails with ValueError.
\<close>

theorem system_status_missing_time_raises:
  "load_sensor_data ex_env ''Perth'' ''Booth 1'' = Inr (Some
     \<lparr>columns = [''time'', ''temp_c'', ''co2_ppm'', ''humidity_pct'', ''pir_state''],
      rows = [[(''time'', NaT), (''temp_c'', Num (Finite 20)), (''co2_ppm'', Num (Finite 400)),
               (''humidity_pct'', Num NaN), (''pir_state'', PyNone)]]\<rparr>)
   \<and> system_status_entry ex_now ''Perth'' ''Booth 1'' NaT = Inl ValueError
   \<and> dashboard ex_env [(''acme'', ''Perth'', ''Booth 1'')] None ex_now = Inl ValueError"
  by code_simp

section \<open>Properties of the dashboard request\<close>

text \<open>
  C1. The claim: alerts and status are computed for every booth, inside the iteration
  that fetched the data of that booth, and a booth without data does not disturb its
  siblings. The program on Sydney with Booth 1 (latest record at 1500 ppm) and Booth 2
  (no file): the alert log and the status panel are filled once, after the loops, from
  the variables the loops left behind, so the only alert and the only status entry carry
  the name of Booth 2 and the data of Booth 1, and Booth 1 has no entry.
\<close>

theorem dashboard_stale_latest:
  "load_sensor_data ex_env ''Sydney'' ''Booth 1'' = Inr (Some ex_booth1_loaded)
   \<and> load_sensor_data ex_env ''Sydney'' ''Booth 2'' = Inr None
   \<and> dashboard ex_env [(''acme'', ''Sydney'', ''Booth 1''), (''acme'', ''Sydney'', ''Booth 2'')]
        None ex_now
      = Inr \<lparr>location_summaries = [(''Sydney'', 1)],
             active_alerts = [HighCO2 ''Sydney'' ''Booth 2'' 1500],
             system_status =
               [\<lparr>location = ''Sydney'', booth = ''Booth 2'',
                  last_seen = Seen ''2024-01-01 10:00'', state = Online\<rparr>]\<rparr>"
  by code_simp

text \<open>
  C5. The claim: a booth whose fetch returns nothing, or whose record set is empty, gets
  no alert, and the request handles it without raising. The program on Sydney with
  Booth 1 and Booth 3 (a file without records, loaded as \<open>None\<close>): the alert of 1500
  ppm is attributed to Booth 3. The program on a topology whose only booth has no file,
  or a file without records: the variable \<open>latest\<close> is never assigned and the request
  raises UnboundLocalError.
\<close>

theorem dashboard_no_data_booth:
  "load_sensor_data ex_env ''Sydney'' ''Booth 3'' = Inr None
   \<and> dashboard ex_env [(''acme'', ''Sydney'', ''Booth 1''), (''acme'', ''Sydney'', ''Booth 3'')]
        None ex_now
      = Inr \<lparr>location_summaries = [(''Sydney'', 1)],
             active_alerts = [HighCO2 ''Sydney'' ''Booth 3'' 1500],
             system_status =
               [\<lparr>location = ''Sydney'', booth = ''Booth 3'',
                  last_seen = Seen ''2024-01-01 10:00'', state = Online\<rparr>]\<rparr>
   \<and> dashboard ex_env [(''acme'', ''Sydney'', ''Booth 2'')] None ex_now = Inl UnboundLocalError
   \<and> dashboard ex_env [(''acme'', ''Sydney'', ''Booth 3'')] None ex_now = Inl UnboundLocalError"
  by code_simp

section \<open>Properties of the historical context\<close>


lemma fsub_NaN [simp]: "fsub x NaN = NaN"
  by (cases x) (simp_all add: fsub_def)





lemma fmean_finite:
  "qs \<noteq> [] \<Longrightarrow> fmean (map Finite qs) = Finite (sum_list qs / real (length qs))"
proof -
  have "foldr fadd (map Finite qs) (Finite 0) = Finite (sum_list qs)"
    by (induction qs) simp_all
  then show "qs \<noteq> [] \<Longrightarrow> fmean (map Finite qs) = Finite (sum_list qs / real (length qs))"
    by (simp add: fmean_def)
qed







end
